theory Spec2Isabelle
  imports Main "HOL-Library.Word"
begin

unbundle bit_operations_syntax

section \<open>Raw handles, observable events and the framework\<close>

text \<open>
  The program is a thin layer over a multimedia framework with a C interface. Every
  resource of that framework is reached through a raw pointer; the model keeps the
  address only, with address \<open>0\<close> as the null pointer.
\<close>

type_synonym ptr = nat

abbreviation nullptr :: ptr where
  "nullptr \<equiv> 0"

text \<open>
  \<open>enum class MessageType : std::int32_t\<close> (gstreamer.hpp, lines 13 to 56) is a
  32-bit value; every bit pattern can be produced by the \<open>static_cast\<close> of
  \<open>message_type\<close>, so the type of tags is the whole of \<open>32 word\<close>.

  Modelled from the spec: the values of the enumerators are those of the framework
  constants \<open>GST_MESSAGE_EOS\<close> and \<open>GST_MESSAGE_ERROR\<close>, whose header
  (gst/gstmessage.h) is missing from the sources. The spec describes the tags as values
  that combine bitwise into a mask satisfied by any one of several tags, so each tag is
  one bit; the model takes the bits of the header, \<open>1 << 0\<close> for end-of-stream and
  \<open>1 << 1\<close> for error.
\<close>

type_synonym MessageType = "32 word"

definition MessageType_EOS :: MessageType where
  "MessageType_EOS = push_bit 0 1"

definition MessageType_Error :: MessageType where
  "MessageType_Error = push_bit 1 1"

definition MessageType_or :: "MessageType \<Rightarrow> MessageType \<Rightarrow> MessageType" where
  "MessageType_or lhs rhs = lhs OR rhs"

definition MessageType_and :: "MessageType \<Rightarrow> MessageType \<Rightarrow> MessageType" where
  "MessageType_and lhs rhs = lhs AND rhs"

text \<open>
  Modelled from the spec: the framework types \<open>GstClockTime\<close>, \<open>GstState\<close> and
  \<open>GstStateChangeReturn\<close> and the constant \<open>GST_CLOCK_TIME_NONE\<close> are missing from
  the sources. The timeout is an unsigned 64-bit count whose value "wait forever" is all
  ones; a state transition answers with a success, asynchronous or failure signal, of
  which the driver tests the failure only.
\<close>

type_synonym GstClockTime = "64 word"

definition GST_CLOCK_TIME_NONE :: GstClockTime where
  "GST_CLOCK_TIME_NONE = - 1"

datatype GstState =
  GST_STATE_VOID_PENDING | GST_STATE_NULL | GST_STATE_READY | GST_STATE_PAUSED | GST_STATE_PLAYING

datatype GstStateChangeReturn =
  GST_STATE_CHANGE_FAILURE | GST_STATE_CHANGE_SUCCESS | GST_STATE_CHANGE_ASYNC
  | GST_STATE_CHANGE_NO_PREROLL

datatype stream = stdout | stderr

datatype color = red | yellow

text \<open>
  What a run does that can be observed from outside: the calls it makes into the
  framework, with their arguments, and the lines it prints (\<open>fmt::print\<close>, with the
  stream and the foreground colour, \<open>None\<close> for plain text).
\<close>

datatype event =
    GstInit
  | GstParseLaunch string
  | GstElementSetState ptr GstState
  | GstElementGetBus ptr
  | GstBusTimedPopFiltered ptr GstClockTime MessageType
  | GstMessageParseError ptr
  | GstObjectUnref ptr
  | GstMessageUnref ptr
  | GErrorFree ptr
  | GFree ptr
  | Print stream "color option" string

fun is_print :: "event \<Rightarrow> bool" where
  "is_print (Print s c t) = True"
| "is_print e = False"

text \<open>
  The framework itself is not part of the repository: it is a parameter of the model.
  Each field answers one call (or one field read) of the C interface the source uses.
  \<^item> \<open>gst_parse_launch d\<close> is the pair of the returned element and of the error
    out-parameter;
  \<^item> \<open>gst_bus_timed_pop_filtered\<close> is \<open>None\<close> when the wait never returns (a wait
    with \<open>GST_CLOCK_TIME_NONE\<close> on a bus that never gets a matching message), and
    \<open>Some p\<close> when it returns the pointer \<open>p\<close>, null for "no message";
  \<^item> \<open>gst_message_parse_error m\<close> is the pair of the two out-parameters, the error and
    the debug string;
  \<^item> \<open>GST_MESSAGE_SRC m\<close> is the pointer \<open>m->src\<close>, the object that posted the
    message, and \<open>GST_OBJECT_NAME obj\<close> the pointer \<open>obj->name\<close> of a non-null
    object. The interface of the framework declares both nullable: a message may have
    no source, and an object no name;
  \<^item> \<open>GError_message e\<close> is the text at \<open>e->message\<close>, which the interface
    declares a string for every error, and \<open>gchar_string p\<close> the text at a non-null
    \<open>gchar*\<close>: the model takes them as well-formed C strings.
\<close>

record framework =
  gst_parse_launch :: "string \<Rightarrow> ptr \<times> ptr"
  gst_element_set_state :: "ptr \<Rightarrow> GstState \<Rightarrow> GstStateChangeReturn"
  gst_element_get_bus :: "ptr \<Rightarrow> ptr"
  gst_bus_timed_pop_filtered :: "ptr \<Rightarrow> GstClockTime \<Rightarrow> MessageType \<Rightarrow> ptr option"
  GST_MESSAGE_TYPE :: "ptr \<Rightarrow> MessageType"
  GST_MESSAGE_SRC :: "ptr \<Rightarrow> ptr"
  GST_OBJECT_NAME :: "ptr \<Rightarrow> ptr"
  gst_message_parse_error :: "ptr \<Rightarrow> ptr \<times> ptr"
  GError_message :: "ptr \<Rightarrow> string"
  gchar_string :: "ptr \<Rightarrow> string"

section \<open>Deleters (gstreamer.hpp, lines 67 to 102)\<close>

text \<open>Each deleter returns the framework calls it makes on the pointer it is given.\<close>

definition GstElementDeleter :: "ptr \<Rightarrow> event list" where
  "GstElementDeleter element = (if nullptr \<noteq> element then [GstObjectUnref element] else [])"

definition GstBusDeleter :: "ptr \<Rightarrow> event list" where
  "GstBusDeleter bus = (if nullptr \<noteq> bus then [GstObjectUnref bus] else [])"

definition GstErrorDeleter :: "ptr \<Rightarrow> event list" where
  "GstErrorDeleter error = (if nullptr \<noteq> error then [GErrorFree error] else [])"

definition GstMessageDeleter :: "ptr \<Rightarrow> event list" where
  "GstMessageDeleter message = (if nullptr \<noteq> message then [GstMessageUnref message] else [])"

fun is_release :: "event \<Rightarrow> bool" where
  "is_release (GstObjectUnref p) = True"
| "is_release (GstMessageUnref p) = True"
| "is_release (GErrorFree p) = True"
| "is_release (GFree p) = True"
| "is_release e = False"

section \<open>Exclusive ownership: \<open>std::unique_ptr\<close> with a deleter\<close>

text \<open>
  \<open>ElementPtr\<close>, \<open>BusPtr\<close>, \<open>ErrorPtr\<close> and \<open>MessagePtr\<close> are
  \<open>std::unique_ptr<T, Deleter>\<close>. The standard library is not part of the
  repository; its operations are modelled as the C++ standard specifies them, on the
  stored pointer:
  \<^item> the destructor calls the deleter if the stored pointer is not null;
  \<^item> \<open>release()\<close> returns the stored pointer and stores null;
  \<^item> \<open>reset(p)\<close> stores \<open>p\<close> and then calls the deleter on the old pointer if
    that was not null;
  \<^item> move construction takes the pointer that the source releases;
  \<^item> move assignment is \<open>reset(u.release())\<close>.
\<close>

definition unique_ptr_dtor :: "(ptr \<Rightarrow> event list) \<Rightarrow> ptr \<Rightarrow> event list" where
  "unique_ptr_dtor deleter stored = (if stored \<noteq> nullptr then deleter stored else [])"

definition unique_ptr_release :: "ptr \<Rightarrow> ptr \<times> ptr" where
  \<comment> \<open>the pointer returned, and the pointer left in the object\<close>
  "unique_ptr_release stored = (stored, nullptr)"

definition unique_ptr_reset :: "(ptr \<Rightarrow> event list) \<Rightarrow> ptr \<Rightarrow> ptr \<Rightarrow> ptr \<times> event list" where
  \<comment> \<open>the pointer stored afterwards, and the calls made on the old one\<close>
  "unique_ptr_reset deleter stored p = (p, if stored \<noteq> nullptr then deleter stored else [])"

definition unique_ptr_move :: "ptr \<Rightarrow> ptr \<times> ptr" where
  \<comment> \<open>move construction: the new object's pointer, and the pointer left in the source\<close>
  "unique_ptr_move source = unique_ptr_release source"

section \<open>The Element wrapper (gstreamer.hpp, lines 108 to 129)\<close>

datatype Element = Element (mElement: ptr)

definition Element_get :: "Element \<Rightarrow> ptr" where
  "Element_get e = mElement e"

definition Element_bool :: "Element \<Rightarrow> bool" where
  "Element_bool e = (nullptr \<noteq> mElement e)"

definition Element_dtor :: "Element \<Rightarrow> event list" where
  \<comment> \<open>\<open>~Element() = default\<close>: destroys the member \<open>mElement\<close>\<close>
  "Element_dtor e = unique_ptr_dtor GstElementDeleter (mElement e)"

definition Element_move_ctor :: "Element \<Rightarrow> Element \<times> Element" where
  \<comment> \<open>\<open>Element(Element&&) = default\<close>: the new wrapper, and the source afterwards\<close>
  "Element_move_ctor source =
     (let (p, left) = unique_ptr_move (mElement source) in (Element p, Element left))"

text \<open>
  Wrappers are objects with an identity: two names may denote the same wrapper. To speak
  about that, the wrappers alive at one moment are a list, and a wrapper is named by its
  position. Move construction creates a new wrapper (at the end of the list) from an
  existing one; move assignment (\<open>Element& operator=(Element&&) = default\<close>) works on
  two existing positions, and follows \<open>reset(u.release())\<close> step by step on the
  store, so that the two positions may be the same. A position outside the list is no
  wrapper: the operation is then not defined (\<open>None\<close>).
\<close>

type_synonym wrappers = "Element list"

definition move_construct :: "wrappers \<Rightarrow> nat \<Rightarrow> wrappers option" where
  "move_construct ws src =
     (if src < length ws then
        (let (new, left) = Element_move_ctor (ws ! src) in Some (ws[src := left] @ [new]))
      else None)"

definition move_assign :: "wrappers \<Rightarrow> nat \<Rightarrow> nat \<Rightarrow> (wrappers \<times> event list) option" where
  "move_assign ws dst src =
     (if dst < length ws \<and> src < length ws then
        (let (p, left) = unique_ptr_release (mElement (ws ! src));
             ws1 = ws[src := Element left];
             (q, calls) = unique_ptr_reset GstElementDeleter (mElement (ws1 ! dst)) p
         in Some (ws1[dst := Element q], calls))
      else None)"

definition no_shared_handle :: "wrappers \<Rightarrow> bool" where
  \<comment> \<open>no two wrappers hold the same non-null raw handle\<close>
  "no_shared_handle ws = distinct (filter (\<lambda>p. p \<noteq> nullptr) (map mElement ws))"

section \<open>The result-returning wrappers (gstreamer.hpp, lines 104 to 164)\<close>

text \<open>
  \<open>nonstd::expected<T, E>\<close> is the sum \<open>E + T\<close>: \<open>Inl\<close> is the unexpected (error)
  value, \<open>Inr\<close> the value. Its boolean test is \<open>\<not> isl\<close>. Each wrapper returns its
  result together with the framework calls it made.
\<close>

definition message_type :: "framework \<Rightarrow> ptr \<Rightarrow> MessageType" where
  "message_type fw msg = GST_MESSAGE_TYPE fw msg"

definition parse_launch :: "framework \<Rightarrow> string \<Rightarrow> (ptr + Element) \<times> event list" where
  "parse_launch fw pipeline_description =
     (let pipeline_str = pipeline_description;
          (element, error) = gst_parse_launch fw pipeline_str
      in if nullptr \<noteq> error then (Inl error, [GstParseLaunch pipeline_str])
         else (Inr (Element element), [GstParseLaunch pipeline_str]))"

text \<open>
  Modelled from the spec: the macro \<open>GST_STR_NULL\<close> that \<open>message_parse_error\<close>
  applies to the debug string is missing from the sources (it belongs to the framework
  header gst/gstinfo.h). Claim C10 names what it yields for a null pointer, the literal
  \<open>(NULL)\<close>; for a non-null pointer it is the string itself.
\<close>

definition GST_STR_NULL :: "framework \<Rightarrow> ptr \<Rightarrow> string" where
  "GST_STR_NULL fw str = (if str \<noteq> nullptr then gchar_string fw str else ''(NULL)'')"

definition message_parse_error ::
  "framework \<Rightarrow> ptr \<Rightarrow> (string + string \<times> string) \<times> event list" where
  "message_parse_error fw message =
     (let (error, debug_info) = gst_message_parse_error fw message
      in if nullptr = error then
           (Inl ''No error found in message'', [GstMessageParseError message])
         else
           (Inr (GError_message fw error, GST_STR_NULL fw debug_info),
            [GstMessageParseError message, GErrorFree error, GFree debug_info]))"

definition bus_timed_pop_filtered ::
  "framework \<Rightarrow> ptr \<Rightarrow> GstClockTime \<Rightarrow> MessageType \<Rightarrow> ((string + ptr) \<times> event list) option" where
  "bus_timed_pop_filtered fw bus timeout types =
     (case gst_bus_timed_pop_filtered fw bus timeout types of
        None \<Rightarrow> None
      | Some msg \<Rightarrow>
          if nullptr = msg then
            Some (Inl ''No message received from bus'', [GstBusTimedPopFiltered bus timeout types])
          else Some (Inr msg, [GstBusTimedPopFiltered bus timeout types]))"

section \<open>The driver (gstreamer00.cpp, lines 16 to 78)\<close>

definition newline :: string where
  "newline = [CHR 0x0A]"

definition PIPELINE_STR :: string where
  "PIPELINE_STR = ''https://gstreamer.freedesktop.org/data/media/sintel_trailer-480p.webm''"

text \<open>
  Modelled from the spec: \<open>EXIT_SUCCESS\<close> and \<open>EXIT_FAILURE\<close> come from
  \<open><cstdlib>\<close>, missing from the sources; the spec gives success as 0 and failure
  as a non-zero code, for which the model takes 1.
\<close>

definition EXIT_SUCCESS :: int where
  "EXIT_SUCCESS = 0"

definition EXIT_FAILURE :: int where
  "EXIT_FAILURE = 1"

definition pipeline_description :: string where
  \<comment> \<open>\<open>fmt::format("playbin uri={}", PIPELINE_STR)\<close>\<close>
  "pipeline_description = ''playbin uri='' @ PIPELINE_STR"

definition wait_mask :: MessageType where
  "wait_mask = MessageType_or MessageType_Error MessageType_EOS"

definition set_state_null :: "framework \<Rightarrow> Element \<Rightarrow> event list" where
  \<comment> \<open>the request to go to the null state and its warning, lines 43-45, 52-54 and 72-73\<close>
  "set_state_null fw pipeline =
     GstElementSetState (Element_get pipeline) GST_STATE_NULL #
     (if gst_element_set_state fw (Element_get pipeline) GST_STATE_NULL = GST_STATE_CHANGE_FAILURE
      then [Print stderr (Some yellow) (''Unable to set the pipeline to the NULL state.'' @ newline)]
      else [])"

text \<open>
  A run can end without returning: line 64 reads \<open>msg_ptr.get()->src\<close> and the name
  of that object with no test. With a null source the read of \<open>->name\<close> goes through
  the null pointer; with a null name \<open>fmt::print\<close> is given a null C string, which it
  refuses with an exception that nothing catches. Both end the process abnormally,
  before anything is printed for the message.
\<close>

datatype abnormal = Null_dereference | Null_string

definition message_dispatch :: "framework \<Rightarrow> ptr \<Rightarrow> abnormal + event list" where
  \<comment> \<open>lines 60 to 69: what is done with the message received\<close>
  "message_dispatch fw msg_ptr =
     (if MessageType_Error = message_type fw msg_ptr then
        (let (result, calls) = message_parse_error fw msg_ptr
         in case result of
              Inr (error_msg, debug_info) \<Rightarrow>
                (let src = GST_MESSAGE_SRC fw msg_ptr
                 in if src = nullptr then Inl Null_dereference
                    else
                      (let name = GST_OBJECT_NAME fw src
                       in if name = nullptr then Inl Null_string
                          else
                            Inr (calls @
                              [Print stderr (Some red)
                                 (''Error received from element '' @ gchar_string fw name @
                                  '': '' @ error_msg @ newline),
                               Print stderr (Some red)
                                 (''Debugging information: '' @ debug_info @ newline)])))
            | Inl description \<Rightarrow> Inr calls)
      else if MessageType_EOS = message_type fw msg_ptr then
        Inr [Print stdout None (''End-Of-Stream reached.'' @ newline)]
      else Inr [])"

text \<open>
  \<open>tutorial_main\<close> is \<open>None\<close> when the run never ends because the wait on the
  bus never returns, \<open>Some (Inl a)\<close> when the run ends abnormally, and
  \<open>Some (Inr (events, code))\<close> when it returns the exit code. Each \<open>return\<close> is
  followed by the destructors of the locals alive there, in reverse order of
  declaration; the objects that were moved from are destroyed too (and release nothing).
\<close>

definition tutorial_main :: "framework \<Rightarrow> (abnormal + event list \<times> int) option" where
  "tutorial_main fw =
     (let pipeline_str = pipeline_description;
          (pipeline_result, parse_calls) = parse_launch fw pipeline_str;
          t1 = GstInit # parse_calls
      in case pipeline_result of
           Inl result_error \<Rightarrow>
             (let (error, error_left) = unique_ptr_move result_error
              in Some (Inr (t1 @
                   [Print stderr (Some red)
                      (''Failed to create pipeline: '' @
                       (if error \<noteq> nullptr then GError_message fw error else ''unknown error'') @
                       newline)] @
                   unique_ptr_dtor GstErrorDeleter error @
                   unique_ptr_dtor GstErrorDeleter error_left,
                   EXIT_FAILURE)))
         | Inr result_value \<Rightarrow>
             (let (pipeline, pipeline_left) = Element_move_ctor result_value;
                  drop_pipeline = Element_dtor pipeline @ Element_dtor pipeline_left;
                  t2 = t1 @ [GstElementSetState (Element_get pipeline) GST_STATE_PLAYING]
              in if GST_STATE_CHANGE_FAILURE =
                      gst_element_set_state fw (Element_get pipeline) GST_STATE_PLAYING
                 then
                   Some (Inr (t2 @
                     [Print stderr (Some red)
                        (''Unable to set the pipeline to the playing state.'' @ newline)] @
                     drop_pipeline,
                     EXIT_FAILURE))
                 else
                   (let bus = gst_element_get_bus fw (Element_get pipeline);
                        t3 = t2 @ [GstElementGetBus (Element_get pipeline)]
                    in if bus = nullptr then
                         Some (Inr (t3 @
                           [Print stderr (Some red)
                              (''Unable to get the bus from the pipeline.'' @ newline)] @
                           set_state_null fw pipeline @
                           unique_ptr_dtor GstBusDeleter bus @ drop_pipeline,
                           EXIT_FAILURE))
                       else
                         (case bus_timed_pop_filtered fw bus GST_CLOCK_TIME_NONE wait_mask of
                            None \<Rightarrow> None
                          | Some (msg, wait_calls) \<Rightarrow>
                              (case msg of
                                 Inl description \<Rightarrow>
                                   Some (Inr (t3 @ wait_calls @
                                     [Print stderr (Some red)
                                        (''Unexpected NULL message from bus.'' @ newline)] @
                                     set_state_null fw pipeline @
                                     unique_ptr_dtor GstBusDeleter bus @ drop_pipeline,
                                     EXIT_FAILURE))
                               | Inr msg_value \<Rightarrow>
                                   (let (msg_ptr, msg_left) = unique_ptr_move msg_value
                                    in case message_dispatch fw msg_ptr of
                                         Inl a \<Rightarrow> Some (Inl a)
                                       | Inr dispatch_events \<Rightarrow>
                                           (let t4 = t3 @ wait_calls @ dispatch_events @
                                                     set_state_null fw pipeline;
                                                drop_all =
                                                  unique_ptr_dtor GstMessageDeleter msg_ptr @
                                                  unique_ptr_dtor GstMessageDeleter msg_left @
                                                  unique_ptr_dtor GstBusDeleter bus @
                                                  drop_pipeline
                                            in if gst_element_set_state fw (Element_get pipeline)
                                                    GST_STATE_NULL = GST_STATE_CHANGE_FAILURE
                                               then Some (Inr (t4 @ drop_all, EXIT_FAILURE))
                                               else Some (Inr (t4 @ drop_all, EXIT_SUCCESS)))))))))"

text \<open>
  The five conditions of a run that the exit code depends on, read off the framework at
  the arguments the driver passes.
\<close>

definition launched_element :: "framework \<Rightarrow> ptr" where
  "launched_element fw = fst (gst_parse_launch fw pipeline_description)"

definition construction_fails :: "framework \<Rightarrow> bool" where
  "construction_fails fw = (snd (gst_parse_launch fw pipeline_description) \<noteq> nullptr)"

definition playing_fails :: "framework \<Rightarrow> bool" where
  "playing_fails fw =
     (gst_element_set_state fw (launched_element fw) GST_STATE_PLAYING = GST_STATE_CHANGE_FAILURE)"

definition pipeline_bus :: "framework \<Rightarrow> ptr" where
  "pipeline_bus fw = gst_element_get_bus fw (launched_element fw)"

definition bus_missing :: "framework \<Rightarrow> bool" where
  "bus_missing fw = (pipeline_bus fw = nullptr)"

definition bus_wait :: "framework \<Rightarrow> ptr option" where
  "bus_wait fw = gst_bus_timed_pop_filtered fw (pipeline_bus fw) GST_CLOCK_TIME_NONE wait_mask"

definition no_message :: "framework \<Rightarrow> bool" where
  "no_message fw = (bus_wait fw = Some nullptr)"

definition null_fails :: "framework \<Rightarrow> bool" where
  "null_fails fw =
     (gst_element_set_state fw (launched_element fw) GST_STATE_NULL = GST_STATE_CHANGE_FAILURE)"

text \<open>
  The message that line 64 cannot print: tagged as an error, carrying an error payload,
  and posted without a source, or by an object without a name.
\<close>

definition source_unnamed :: "framework \<Rightarrow> ptr \<Rightarrow> bool" where
  "source_unnamed fw msg =
     (GST_MESSAGE_SRC fw msg = nullptr \<or> GST_OBJECT_NAME fw (GST_MESSAGE_SRC fw msg) = nullptr)"

definition unprintable_error :: "framework \<Rightarrow> bool" where
  "unprintable_error fw =
     (case bus_wait fw of
        None \<Rightarrow> False
      | Some msg \<Rightarrow>
          msg \<noteq> nullptr \<and> message_type fw msg = MessageType_Error \<and>
          fst (gst_message_parse_error fw msg) \<noteq> nullptr \<and> source_unnamed fw msg)"

text \<open>What is read off the result of a run.\<close>

definition ends_abnormally :: "(abnormal + event list \<times> int) option \<Rightarrow> bool" where
  "ends_abnormally r = (case r of Some (Inl a) \<Rightarrow> True | _ \<Rightarrow> False)"

definition exit_code :: "(abnormal + event list \<times> int) option \<Rightarrow> int option" where
  "exit_code r = (case r of Some (Inr (events, code)) \<Rightarrow> Some code | _ \<Rightarrow> None)"

definition prints_and_code ::
  "(abnormal + event list \<times> int) option \<Rightarrow> (event list \<times> int) option" where
  "prints_and_code r =
     (case r of Some (Inr (events, code)) \<Rightarrow> Some (filter is_print events, code) | _ \<Rightarrow> None)"

section \<open>Concrete frameworks\<close>

text \<open>
  A framework that gives the same answer to every call of one kind, whatever the
  arguments: the answer of \<open>gst_parse_launch\<close>, of the transition to playing, of
  \<open>gst_element_get_bus\<close>, of the wait on the bus, the tag and the error payload of the
  message, the text of the error, and the answer of the transition to the null state.
  Every message comes from the object at address 6, whose name, at address 7, is
  \<open>souphttpsrc0\<close>. The theorems below are run on such frameworks.
\<close>

definition sample_run ::
  "ptr \<times> ptr \<Rightarrow> GstStateChangeReturn \<Rightarrow> ptr \<Rightarrow> ptr option \<Rightarrow> MessageType \<Rightarrow> ptr \<times> ptr \<Rightarrow>
   string \<Rightarrow> GstStateChangeReturn \<Rightarrow> framework" where
  "sample_run launch playing bus wait tag payload text stopped =
     \<lparr> gst_parse_launch = (\<lambda>d. launch),
       gst_element_set_state = (\<lambda>e s. if s = GST_STATE_PLAYING then playing else stopped),
       gst_element_get_bus = (\<lambda>e. bus),
       gst_bus_timed_pop_filtered = (\<lambda>b t m. wait),
       GST_MESSAGE_TYPE = (\<lambda>m. tag),
       GST_MESSAGE_SRC = (\<lambda>m. 6),
       GST_OBJECT_NAME = (\<lambda>obj. 7),
       gst_message_parse_error = (\<lambda>m. payload),
       GError_message = (\<lambda>e. text),
       gchar_string = (\<lambda>p. if p = 7 then ''souphttpsrc0'' else ''gstsouphttpsrc.c(1000)'') \<rparr>"

text \<open>
  Five runs: a message tagged as an error (as for a media address that cannot be
  reached), an end-of-stream message, a message with another tag, an end-of-stream
  run whose pipeline refuses to go to the null state, and an error message that has no
  source.
\<close>
definition unreachable_uri_run :: framework where
  "unreachable_uri_run =
     sample_run (1, nullptr) GST_STATE_CHANGE_ASYNC 2 (Some 3) MessageType_Error (4, 5)
       ''Could not resolve server name.'' GST_STATE_CHANGE_SUCCESS"

definition reachable_uri_run :: framework where
  "reachable_uri_run =
     sample_run (1, nullptr) GST_STATE_CHANGE_ASYNC 2 (Some 3) MessageType_EOS
       (nullptr, nullptr) [] GST_STATE_CHANGE_SUCCESS"

definition state_changed_run :: framework where
  "state_changed_run =
     sample_run (1, nullptr) GST_STATE_CHANGE_ASYNC 2 (Some 3) (push_bit 6 1)
       (nullptr, nullptr) [] GST_STATE_CHANGE_SUCCESS"

definition stuck_teardown_run :: framework where
  "stuck_teardown_run =
     sample_run (1, nullptr) GST_STATE_CHANGE_SUCCESS 2 (Some 3) MessageType_EOS
       (nullptr, nullptr) [] GST_STATE_CHANGE_FAILURE"

definition sourceless_error_run :: framework where
  \<comment> \<open>the error message of \<open>unreachable_uri_run\<close>, posted without a source\<close>
  "sourceless_error_run = unreachable_uri_run \<lparr> GST_MESSAGE_SRC := (\<lambda>m. nullptr) \<rparr>"

definition null_state_warning :: event where
  "null_state_warning =
     Print stderr (Some yellow) (''Unable to set the pipeline to the NULL state.'' @ newline)"


section \<open>Properties of the deleters\<close>

text \<open>
  Claim C3. Each of the four deleters (element, bus, error, message), called on a null
  pointer, makes no call into the framework at all; called on a non-null pointer it
  makes exactly one call, the release function of its resource kind on that pointer.
  So the release call is made exactly when the pointer is non-null.
\<close>

theorem deleters_release_iff_non_null:
  "(p = nullptr \<longrightarrow>
      GstElementDeleter p = [] \<and> GstBusDeleter p = [] \<and>
      GstErrorDeleter p = [] \<and> GstMessageDeleter p = []) \<and>
   (p \<noteq> nullptr \<longrightarrow>
      GstElementDeleter p = [GstObjectUnref p] \<and> GstBusDeleter p = [GstObjectUnref p] \<and>
      GstErrorDeleter p = [GErrorFree p] \<and> GstMessageDeleter p = [GstMessageUnref p]) \<and>
   (filter is_release (GstElementDeleter p) \<noteq> [] \<longleftrightarrow> p \<noteq> nullptr) \<and>
   (filter is_release (GstBusDeleter p) \<noteq> [] \<longleftrightarrow> p \<noteq> nullptr) \<and>
   (filter is_release (GstErrorDeleter p) \<noteq> [] \<longleftrightarrow> p \<noteq> nullptr) \<and>
   (filter is_release (GstMessageDeleter p) \<noteq> [] \<longleftrightarrow> p \<noteq> nullptr)"
  by (simp add: GstElementDeleter_def GstBusDeleter_def GstErrorDeleter_def
      GstMessageDeleter_def)

theorem deleters_release_iff_non_null_witness:
  "GstElementDeleter 0 = [] \<and> GstBusDeleter 0 = [] \<and>
   GstErrorDeleter 0 = [] \<and> GstMessageDeleter 0 = [] \<and>
   GstElementDeleter 7 = [GstObjectUnref 7] \<and> GstBusDeleter 7 = [GstObjectUnref 7] \<and>
   GstErrorDeleter 7 = [GErrorFree 7] \<and> GstMessageDeleter 7 = [GstMessageUnref 7]"
  using deleters_release_iff_non_null [of 0] deleters_release_iff_non_null [of 7]
  by simp

section \<open>Moving an Element\<close>

lemma distinct_filter_nth:
  "distinct (filter P xs) \<longleftrightarrow>
   (\<forall>i<length xs. \<forall>j<length xs. i \<noteq> j \<and> P (xs ! i) \<longrightarrow> xs ! i \<noteq> xs ! j)"
proof (induction xs)
  case Nil
  show ?case by simp
next
  case (Cons x xs)
  show ?case
    unfolding length_Cons All_less_Suc2
    using Cons.IH by (auto simp: in_set_conv_nth)
qed

lemma no_shared_handle_nth:
  "no_shared_handle ws \<longleftrightarrow>
   (\<forall>i<length ws. \<forall>j<length ws.
      i \<noteq> j \<and> mElement (ws ! i) \<noteq> nullptr \<longrightarrow> mElement (ws ! i) \<noteq> mElement (ws ! j))"
  by (simp add: no_shared_handle_def distinct_filter_nth)

lemma move_assign_keeps:
  assumes "no_shared_handle ws" "src < length ws" "dst < length ws"
  shows "no_shared_handle (ws[src := Element nullptr, dst := ws ! src])"
  using assms unfolding no_shared_handle_nth
  by (auto simp: nth_list_update)

lemma move_construct_keeps:
  assumes "no_shared_handle ws" "src < length ws"
  shows "no_shared_handle (ws[src := Element nullptr] @ [ws ! src])"
  using assms unfolding no_shared_handle_nth
  by (auto simp: nth_list_update nth_append less_Suc_eq)

lemma move_construct_eq:
  "src < length ws \<Longrightarrow>
   move_construct ws src = Some (ws[src := Element nullptr] @ [ws ! src])"
  by (simp add: move_construct_def Element_move_ctor_def unique_ptr_move_def
      unique_ptr_release_def)

lemma move_assign_eq:
  "dst < length ws \<Longrightarrow> src < length ws \<Longrightarrow>
   move_assign ws dst src =
     Some (ws[src := Element nullptr, dst := ws ! src],
           if dst = src then [] else unique_ptr_dtor GstElementDeleter (mElement (ws ! dst)))"
  by (simp add: move_assign_def unique_ptr_release_def unique_ptr_reset_def
      unique_ptr_dtor_def)

text \<open>
  The claim below speaks of a source and of a destination, two wrappers. Assigning a
  wrapper to itself is the one move with a single wrapper: \<open>reset(u.release())\<close>
  then puts the handle back, and nothing is released.
\<close>

lemma move_assign_to_itself:
  "src < length ws \<Longrightarrow> move_assign ws src src = Some (ws, [])"
  by (simp add: move_assign_eq list_update_same_conv)

text \<open>
  Claim C4. For every Element wrapper holding a raw handle \<open>h\<close>, moving it, by move
  construction of a new wrapper or by move assignment to another wrapper, leaves the
  source with a null pointer, so that its validity check is false, and leaves the
  destination holding exactly \<open>h\<close> (move assignment releases what the destination
  held before, if that was not null). So a move never makes two wrappers hold the same
  non-null raw handle: if no two did before, no two do afterwards.
\<close>

theorem Element_move_transfers_handle:
  assumes "src < length ws"
  shows "(case move_construct ws src of
            None \<Rightarrow> False
          | Some ws' \<Rightarrow>
              length ws' = Suc (length ws) \<and>
              mElement (ws' ! src) = nullptr \<and>
              \<not> Element_bool (ws' ! src) \<and>
              Element_get (ws' ! length ws) = mElement (ws ! src) \<and>
              (no_shared_handle ws \<longrightarrow> no_shared_handle ws')) \<and>
         (dst < length ws \<and> dst \<noteq> src \<longrightarrow>
            (case move_assign ws dst src of
               None \<Rightarrow> False
             | Some (ws', calls) \<Rightarrow>
                 length ws' = length ws \<and>
                 mElement (ws' ! src) = nullptr \<and>
                 \<not> Element_bool (ws' ! src) \<and>
                 Element_get (ws' ! dst) = mElement (ws ! src) \<and>
                 calls = unique_ptr_dtor GstElementDeleter (mElement (ws ! dst)) \<and>
                 (no_shared_handle ws \<longrightarrow> no_shared_handle ws')))"
proof (intro conjI impI)
  show "case move_construct ws src of
            None \<Rightarrow> False
          | Some ws' \<Rightarrow>
              length ws' = Suc (length ws) \<and>
              mElement (ws' ! src) = nullptr \<and>
              \<not> Element_bool (ws' ! src) \<and>
              Element_get (ws' ! length ws) = mElement (ws ! src) \<and>
              (no_shared_handle ws \<longrightarrow> no_shared_handle ws')"
    using assms
    by (simp add: move_construct_eq move_construct_keeps Element_bool_def Element_get_def
        nth_append)
next
  assume d: "dst < length ws \<and> dst \<noteq> src"
  then show "case move_assign ws dst src of
               None \<Rightarrow> False
             | Some (ws', calls) \<Rightarrow>
                 length ws' = length ws \<and>
                 mElement (ws' ! src) = nullptr \<and>
                 \<not> Element_bool (ws' ! src) \<and>
                 Element_get (ws' ! dst) = mElement (ws ! src) \<and>
                 calls = unique_ptr_dtor GstElementDeleter (mElement (ws ! dst)) \<and>
                 (no_shared_handle ws \<longrightarrow> no_shared_handle ws')"
    using assms
    by (simp add: move_assign_eq move_assign_keeps Element_bool_def Element_get_def)
qed

text \<open>
  Claim C4 on two wrappers holding the handles 5 and 9: the first is moved into a new
  wrapper, and the first is assigned to the second.
\<close>

theorem Element_move_transfers_handle_witness:
  "(0::nat) < length [Element 5, Element 9] \<and> (1::nat) < length [Element 5, Element 9] \<and>
   no_shared_handle [Element 5, Element 9] \<and>
   move_construct [Element 5, Element 9] 0 = Some [Element nullptr, Element 9, Element 5] \<and>
   no_shared_handle [Element nullptr, Element 9, Element 5] \<and>
   move_assign [Element 5, Element 9] 1 0 = Some ([Element nullptr, Element 5], [GstObjectUnref 9]) \<and>
   no_shared_handle [Element nullptr, Element 5]"
  using Element_move_transfers_handle [of 0 "[Element 5, Element 9]" 1]
  by (simp add: no_shared_handle_def move_construct_def move_assign_def Element_move_ctor_def
      unique_ptr_move_def unique_ptr_release_def unique_ptr_reset_def GstElementDeleter_def)

section \<open>Properties of \<open>parse_launch\<close>\<close>

text \<open>
  Claim C5 as stated says that \<open>parse_launch\<close> returns a valid handle whenever the
  parser reports no error. A framework that returns a null element and leaves the error
  null gets a success value whose wrapper holds the null pointer: its validity check is
  false.
\<close>

theorem parse_launch_null_element_counterexample:
  "snd (gst_parse_launch
          (sample_run (nullptr, nullptr) GST_STATE_CHANGE_ASYNC 2 (Some 3) MessageType_EOS
             (nullptr, nullptr) [] GST_STATE_CHANGE_SUCCESS) ''playbin'') = nullptr \<and>
   fst (parse_launch
          (sample_run (nullptr, nullptr) GST_STATE_CHANGE_ASYNC 2 (Some 3) MessageType_EOS
             (nullptr, nullptr) [] GST_STATE_CHANGE_SUCCESS) ''playbin'') = Inr (Element nullptr) \<and>
   \<not> Element_bool (Element nullptr)"
  by (simp add: parse_launch_def sample_run_def Element_bool_def)

text \<open>
  Claim C5, amended. For every pipeline description, \<open>parse_launch\<close> returns an
  error value exactly when the framework parser reports an error (a non-null error
  out-parameter), and that value wraps this non-null error; when the parser reports no
  error it returns a success value that owns exactly the element pointer the framework
  returned, which is a valid handle exactly when that pointer is not null. In both cases
  it makes the one call to the framework parser.
\<close>

theorem parse_launch_result:
  "(isl (fst (parse_launch fw d)) \<longleftrightarrow> snd (gst_parse_launch fw d) \<noteq> nullptr) \<and>
   (isl (fst (parse_launch fw d)) \<longrightarrow>
      projl (fst (parse_launch fw d)) \<noteq> nullptr \<and>
      projl (fst (parse_launch fw d)) = snd (gst_parse_launch fw d)) \<and>
   (snd (gst_parse_launch fw d) = nullptr \<longrightarrow>
      fst (parse_launch fw d) = Inr (Element (fst (gst_parse_launch fw d))) \<and>
      (Element_bool (Element (fst (gst_parse_launch fw d))) \<longleftrightarrow>
         fst (gst_parse_launch fw d) \<noteq> nullptr)) \<and>
   snd (parse_launch fw d) = [GstParseLaunch d]"
  by (cases "gst_parse_launch fw d") (auto simp: parse_launch_def Element_bool_def)

text \<open>Claim C5, amended, on a parser that reports an error and on one that does not.\<close>

theorem parse_launch_result_witness:
  "fst (parse_launch
          (sample_run (nullptr, 4) GST_STATE_CHANGE_ASYNC 2 (Some 3) MessageType_EOS
             (nullptr, nullptr) ''no element'' GST_STATE_CHANGE_SUCCESS) ''playbi'') = Inl 4 \<and>
   fst (parse_launch
          (sample_run (1, nullptr) GST_STATE_CHANGE_ASYNC 2 (Some 3) MessageType_EOS
             (nullptr, nullptr) [] GST_STATE_CHANGE_SUCCESS) ''playbin'') = Inr (Element 1) \<and>
   Element_bool (Element 1)"
  using
    parse_launch_result [of "sample_run (nullptr, 4) GST_STATE_CHANGE_ASYNC 2 (Some 3)
      MessageType_EOS (nullptr, nullptr) ''no element'' GST_STATE_CHANGE_SUCCESS" "''playbi''"]
    parse_launch_result [of "sample_run (1, nullptr) GST_STATE_CHANGE_ASYNC 2 (Some 3)
      MessageType_EOS (nullptr, nullptr) [] GST_STATE_CHANGE_SUCCESS" "''playbin''"]
  by (simp add: sample_run_def parse_launch_def Element_bool_def)

text \<open>
  Claim C9. \<open>parse_launch\<close> decides between success and failure on the error
  out-parameter alone: it returns an error value exactly when the framework sets the
  error, so two framework answers with the same error pointer give the same kind of
  result, whatever the element pointers, and on success the element pointer is wrapped
  as it came, never inspected. In particular, a null element returned together with a
  null error gives a success value, wrapping an Element that holds the null pointer and
  whose validity check is false.
\<close>

theorem parse_launch_ignores_element:
  "(isl (fst (parse_launch fw d)) \<longleftrightarrow> snd (gst_parse_launch fw d) \<noteq> nullptr) \<and>
   (snd (gst_parse_launch fw d) = snd (gst_parse_launch fw' d') \<longrightarrow>
      isl (fst (parse_launch fw d)) = isl (fst (parse_launch fw' d'))) \<and>
   (snd (gst_parse_launch fw d) = nullptr \<longrightarrow>
      fst (parse_launch fw d) = Inr (Element (fst (gst_parse_launch fw d)))) \<and>
   (gst_parse_launch fw d = (nullptr, nullptr) \<longrightarrow>
      \<not> isl (fst (parse_launch fw d)) \<and>
      Element_get (projr (fst (parse_launch fw d))) = nullptr \<and>
      \<not> Element_bool (projr (fst (parse_launch fw d))))"
  by (cases "gst_parse_launch fw d"; cases "gst_parse_launch fw' d'")
    (auto simp: parse_launch_def Element_bool_def Element_get_def)

text \<open>
  Claim C9 on a framework that returns a null element and a null error (success, with
  an invalid Element), beside one that returns the element 8 with no error (success)
  and one that returns the element 8 with the error 4 (failure).
\<close>

theorem parse_launch_ignores_element_witness:
  "gst_parse_launch
     (sample_run (nullptr, nullptr) GST_STATE_CHANGE_FAILURE nullptr None 0 (nullptr, nullptr) []
        GST_STATE_CHANGE_FAILURE) ''fakesrc'' = (nullptr, nullptr) \<and>
   fst (parse_launch
     (sample_run (nullptr, nullptr) GST_STATE_CHANGE_FAILURE nullptr None 0 (nullptr, nullptr) []
        GST_STATE_CHANGE_FAILURE) ''fakesrc'') = Inr (Element nullptr) \<and>
   \<not> Element_bool (Element nullptr) \<and>
   isl (fst (parse_launch
     (sample_run (nullptr, nullptr) GST_STATE_CHANGE_FAILURE nullptr None 0 (nullptr, nullptr) []
        GST_STATE_CHANGE_FAILURE) ''fakesrc'')) =
   isl (fst (parse_launch
     (sample_run (8, nullptr) GST_STATE_CHANGE_FAILURE nullptr None 0 (nullptr, nullptr) []
        GST_STATE_CHANGE_FAILURE) ''fakesrc'')) \<and>
   fst (parse_launch
     (sample_run (8, 4) GST_STATE_CHANGE_FAILURE nullptr None 0 (nullptr, nullptr) []
        GST_STATE_CHANGE_FAILURE) ''fakesrc'') = Inl 4"
  using
    parse_launch_ignores_element
      [of "sample_run (nullptr, nullptr) GST_STATE_CHANGE_FAILURE nullptr None 0 (nullptr, nullptr) []
          GST_STATE_CHANGE_FAILURE" "''fakesrc''"
          "sample_run (8, nullptr) GST_STATE_CHANGE_FAILURE nullptr None 0 (nullptr, nullptr) []
          GST_STATE_CHANGE_FAILURE" "''fakesrc''"]
    parse_launch_ignores_element
      [of "sample_run (8, 4) GST_STATE_CHANGE_FAILURE nullptr None 0 (nullptr, nullptr) []
          GST_STATE_CHANGE_FAILURE" "''fakesrc''"
          "sample_run (8, nullptr) GST_STATE_CHANGE_FAILURE nullptr None 0 (nullptr, nullptr) []
          GST_STATE_CHANGE_FAILURE" "''fakesrc''"]
  by (simp add: sample_run_def parse_launch_def Element_bool_def Element_get_def)

section \<open>Properties of \<open>bus_timed_pop_filtered\<close>\<close>

text \<open>
  Claim C6. For every bus, timeout and type mask, \<open>bus_timed_pop_filtered\<close>
  returns as soon as the wait of the framework returns (it adds no waiting of its own);
  it returns a message handle exactly when the framework yields a non-null message, and
  that handle is this message; when the framework yields no message (a null pointer) it
  returns the failure value with the text "No message received from bus", never a
  success wrapping null. This holds in particular for a zero timeout.
\<close>

theorem bus_timed_pop_filtered_result:
  "(bus_timed_pop_filtered fw bus timeout types = None \<longleftrightarrow>
      gst_bus_timed_pop_filtered fw bus timeout types = None) \<and>
   (\<forall>msg. map_option fst (bus_timed_pop_filtered fw bus timeout types) = Some (Inr msg) \<longleftrightarrow>
      gst_bus_timed_pop_filtered fw bus timeout types = Some msg \<and> msg \<noteq> nullptr) \<and>
   (gst_bus_timed_pop_filtered fw bus timeout types = Some nullptr \<longleftrightarrow>
      map_option fst (bus_timed_pop_filtered fw bus timeout types) =
        Some (Inl ''No message received from bus'')) \<and>
   (gst_bus_timed_pop_filtered fw bus 0 types = Some nullptr \<longrightarrow>
      map_option fst (bus_timed_pop_filtered fw bus 0 types) =
        Some (Inl ''No message received from bus''))"
  by (auto simp: bus_timed_pop_filtered_def split: option.splits)

text \<open>
  Claim C6 on a wait with timeout zero that finds nothing, and on a wait without
  time limit that gets the message at address 3.
\<close>

theorem bus_timed_pop_filtered_result_witness:
  "gst_bus_timed_pop_filtered
     (sample_run (1, nullptr) GST_STATE_CHANGE_ASYNC 2 (Some nullptr) 0 (nullptr, nullptr) []
        GST_STATE_CHANGE_SUCCESS) 2 0 wait_mask = Some nullptr \<and>
   bus_timed_pop_filtered
     (sample_run (1, nullptr) GST_STATE_CHANGE_ASYNC 2 (Some nullptr) 0 (nullptr, nullptr) []
        GST_STATE_CHANGE_SUCCESS) 2 0 wait_mask =
     Some (Inl ''No message received from bus'', [GstBusTimedPopFiltered 2 0 wait_mask]) \<and>
   map_option fst (bus_timed_pop_filtered
     (sample_run (1, nullptr) GST_STATE_CHANGE_ASYNC 2 (Some 3) MessageType_EOS (nullptr, nullptr) []
        GST_STATE_CHANGE_SUCCESS) 2 GST_CLOCK_TIME_NONE wait_mask) = Some (Inr 3)"
  using
    bus_timed_pop_filtered_result [of "sample_run (1, nullptr) GST_STATE_CHANGE_ASYNC 2
      (Some nullptr) 0 (nullptr, nullptr) [] GST_STATE_CHANGE_SUCCESS" 2 0 wait_mask]
    bus_timed_pop_filtered_result [of "sample_run (1, nullptr) GST_STATE_CHANGE_ASYNC 2
      (Some 3) MessageType_EOS (nullptr, nullptr) [] GST_STATE_CHANGE_SUCCESS" 2
      GST_CLOCK_TIME_NONE wait_mask]
  by (simp add: sample_run_def bus_timed_pop_filtered_def)

section \<open>Properties of \<open>message_parse_error\<close>\<close>

text \<open>
  Claim C7 as stated says that the first string is non-empty whenever the message
  carries an error payload. The function copies \<open>error->message\<close> as it is: a
  payload whose text is empty gives an empty first string.
\<close>

theorem message_parse_error_empty_text_counterexample:
  "fst (gst_message_parse_error
          (sample_run (1, nullptr) GST_STATE_CHANGE_ASYNC 2 (Some 3) MessageType_Error
             (4, nullptr) [] GST_STATE_CHANGE_SUCCESS) 3) \<noteq> nullptr \<and>
   fst (message_parse_error
          (sample_run (1, nullptr) GST_STATE_CHANGE_ASYNC 2 (Some 3) MessageType_Error
             (4, nullptr) [] GST_STATE_CHANGE_SUCCESS) 3) = Inr ([], ''(NULL)'')"
  by (simp add: message_parse_error_def sample_run_def GST_STR_NULL_def)

text \<open>
  Claim C7, amended. For every message, \<open>message_parse_error\<close> returns a failure
  value (the text "No error found in message", and no pair of strings) exactly when the
  message carries no error payload (the framework leaves the error null); when it
  carries one, the result is a pair of strings whose first component is the text of the
  payload, copied as it is, hence non-empty exactly when that text is non-empty.
\<close>

theorem message_parse_error_result:
  "(isl (fst (message_parse_error fw message)) \<longleftrightarrow>
      fst (gst_message_parse_error fw message) = nullptr) \<and>
   (fst (gst_message_parse_error fw message) = nullptr \<longrightarrow>
      message_parse_error fw message =
        (Inl ''No error found in message'', [GstMessageParseError message])) \<and>
   (fst (gst_message_parse_error fw message) \<noteq> nullptr \<longrightarrow>
      (\<exists>debug. fst (message_parse_error fw message) =
         Inr (GError_message fw (fst (gst_message_parse_error fw message)), debug)) \<and>
      (fst (projr (fst (message_parse_error fw message))) \<noteq> [] \<longleftrightarrow>
         GError_message fw (fst (gst_message_parse_error fw message)) \<noteq> []))"
  by (cases "gst_message_parse_error fw message") (auto simp: message_parse_error_def)

text \<open>Claim C7, amended, on a message with an error payload and on one without.\<close>

theorem message_parse_error_result_witness:
  "message_parse_error
     (sample_run (1, nullptr) GST_STATE_CHANGE_ASYNC 2 (Some 3) MessageType_Error
        (4, 5) ''Could not resolve server name.'' GST_STATE_CHANGE_SUCCESS) 3 =
     (Inr (''Could not resolve server name.'', ''gstsouphttpsrc.c(1000)''),
      [GstMessageParseError 3, GErrorFree 4, GFree 5]) \<and>
   message_parse_error
     (sample_run (1, nullptr) GST_STATE_CHANGE_ASYNC 2 (Some 3) MessageType_EOS
        (nullptr, nullptr) [] GST_STATE_CHANGE_SUCCESS) 3 =
     (Inl ''No error found in message'', [GstMessageParseError 3])"
  using
    message_parse_error_result [of "sample_run (1, nullptr) GST_STATE_CHANGE_ASYNC 2 (Some 3)
      MessageType_Error (4, 5) ''Could not resolve server name.'' GST_STATE_CHANGE_SUCCESS" 3]
    message_parse_error_result [of "sample_run (1, nullptr) GST_STATE_CHANGE_ASYNC 2 (Some 3)
      MessageType_EOS (nullptr, nullptr) [] GST_STATE_CHANGE_SUCCESS" 3]
  by (simp add: sample_run_def message_parse_error_def GST_STR_NULL_def)

text \<open>
  Claim C10. Whenever \<open>message_parse_error\<close> succeeds (which it does whenever the
  message carries an error payload), the second string is the debug text of the
  framework, or the literal \<open>(NULL)\<close>, which is not empty, when the framework gives
  a null debug pointer.
\<close>

theorem message_parse_error_debug_placeholder:
  "(\<forall>error_msg debug_info.
      fst (message_parse_error fw message) = Inr (error_msg, debug_info) \<longrightarrow>
        debug_info =
          (if snd (gst_message_parse_error fw message) = nullptr then ''(NULL)''
           else gchar_string fw (snd (gst_message_parse_error fw message))) \<and>
        (snd (gst_message_parse_error fw message) = nullptr \<longrightarrow>
           debug_info = ''(NULL)'' \<and> debug_info \<noteq> [])) \<and>
   (fst (gst_message_parse_error fw message) \<noteq> nullptr \<longrightarrow>
      (\<exists>error_msg debug_info.
         fst (message_parse_error fw message) = Inr (error_msg, debug_info)))"
  by (cases "gst_message_parse_error fw message")
    (auto simp: message_parse_error_def GST_STR_NULL_def)

text \<open>Claim C10 on an error payload that comes without debug text.\<close>

theorem message_parse_error_debug_placeholder_witness:
  "gst_message_parse_error
     (sample_run (1, nullptr) GST_STATE_CHANGE_ASYNC 2 (Some 3) MessageType_Error
        (4, nullptr) ''Internal data stream error.'' GST_STATE_CHANGE_SUCCESS) 3 = (4, nullptr) \<and>
   fst (message_parse_error
     (sample_run (1, nullptr) GST_STATE_CHANGE_ASYNC 2 (Some 3) MessageType_Error
        (4, nullptr) ''Internal data stream error.'' GST_STATE_CHANGE_SUCCESS) 3) =
     Inr (''Internal data stream error.'', ''(NULL)'')"
  using message_parse_error_debug_placeholder
    [of "sample_run (1, nullptr) GST_STATE_CHANGE_ASYNC 2 (Some 3) MessageType_Error
        (4, nullptr) ''Internal data stream error.'' GST_STATE_CHANGE_SUCCESS" 3]
  by (simp add: sample_run_def message_parse_error_def GST_STR_NULL_def)

section \<open>The runs of the driver\<close>

lemma parse_launch_driver:
  "parse_launch fw pipeline_description =
     (if construction_fails fw then Inl (snd (gst_parse_launch fw pipeline_description))
      else Inr (Element (launched_element fw)),
      [GstParseLaunch pipeline_description])"
  by (cases "gst_parse_launch fw pipeline_description")
    (simp add: parse_launch_def construction_fails_def launched_element_def)

lemma drop_pipeline:
  "Element_dtor (Element e) @ Element_dtor (Element nullptr) = Element_dtor (Element e)"
  by (simp add: Element_dtor_def unique_ptr_dtor_def)




lemma tutorial_main_waits:
  assumes "\<not> construction_fails fw" "\<not> playing_fails fw" "\<not> bus_missing fw"
  shows "tutorial_main fw =
    (case bus_wait fw of
       None \<Rightarrow> None
     | Some msg \<Rightarrow>
         if msg = nullptr then
           Some (Inr ([GstInit, GstParseLaunch pipeline_description,
                  GstElementSetState (launched_element fw) GST_STATE_PLAYING,
                  GstElementGetBus (launched_element fw),
                  GstBusTimedPopFiltered (pipeline_bus fw) GST_CLOCK_TIME_NONE wait_mask,
                  Print stderr (Some red) (''Unexpected NULL message from bus.'' @ newline)] @
                 set_state_null fw (Element (launched_element fw)) @
                 [GstObjectUnref (pipeline_bus fw)] @
                 Element_dtor (Element (launched_element fw)),
                 EXIT_FAILURE))
         else
           (case message_dispatch fw msg of
              Inl a \<Rightarrow> Some (Inl a)
            | Inr dispatch_events \<Rightarrow>
                Some (Inr ([GstInit, GstParseLaunch pipeline_description,
                       GstElementSetState (launched_element fw) GST_STATE_PLAYING,
                       GstElementGetBus (launched_element fw),
                       GstBusTimedPopFiltered (pipeline_bus fw) GST_CLOCK_TIME_NONE wait_mask] @
                      dispatch_events @
                      set_state_null fw (Element (launched_element fw)) @
                      [GstMessageUnref msg, GstObjectUnref (pipeline_bus fw)] @
                      Element_dtor (Element (launched_element fw)),
                      if null_fails fw then EXIT_FAILURE else EXIT_SUCCESS))))"
proof -
  have pf: "GST_STATE_CHANGE_FAILURE \<noteq>
      gst_element_set_state fw (launched_element fw) GST_STATE_PLAYING"
    using assms(2) by (auto simp: playing_fails_def)
  have bm: "gst_element_get_bus fw (launched_element fw) \<noteq> nullptr"
    using assms(3) by (simp add: bus_missing_def pipeline_bus_def)
  have w: "bus_timed_pop_filtered fw (gst_element_get_bus fw (launched_element fw))
             GST_CLOCK_TIME_NONE wait_mask =
           (case bus_wait fw of
              None \<Rightarrow> None
            | Some msg \<Rightarrow>
                Some (if msg = nullptr then Inl ''No message received from bus'' else Inr msg,
                      [GstBusTimedPopFiltered (pipeline_bus fw) GST_CLOCK_TIME_NONE wait_mask]))"
    by (simp add: bus_timed_pop_filtered_def bus_wait_def pipeline_bus_def split: option.splits)
  show ?thesis
    using assms(1) pf bm
    by (simp add: tutorial_main_def parse_launch_driver Element_move_ctor_def
        unique_ptr_move_def unique_ptr_release_def Element_get_def drop_pipeline
        unique_ptr_dtor_def w null_fails_def Let_def pipeline_bus_def GstBusDeleter_def
        GstMessageDeleter_def split: option.splits sum.splits)
qed


lemma set_state_null_driver:
  "set_state_null fw (Element (launched_element fw)) =
     GstElementSetState (launched_element fw) GST_STATE_NULL #
     (if null_fails fw then [null_state_warning] else [])"
  by (simp add: set_state_null_def null_fails_def Element_get_def null_state_warning_def)

lemma prints_of_Element_dtor: "filter is_print (Element_dtor e) = []"
  by (simp add: Element_dtor_def unique_ptr_dtor_def GstElementDeleter_def)

lemma is_print_null_state_warning: "is_print null_state_warning"
  by (simp add: null_state_warning_def)

lemma tags_differ: "MessageType_Error \<noteq> MessageType_EOS"
  by (simp add: MessageType_Error_def MessageType_EOS_def)


text \<open>
  Claim C2, amended. In a run where the pipeline is built, starts playing, has a bus,
  and the wait on the bus delivers a message: if the message is tagged as an error,
  carries an error payload and comes from a source object that has a name, the program
  prints the element error and then the debug string; if it is tagged end-of-stream,
  the program prints the end-of-stream notice. In both cases it then terminates with
  the success exit code 0, unless the final transition to the null state fails: then
  it prints a warning and terminates with the failure exit code.
\<close>

theorem tutorial_main_error_and_eos_runs:
  assumes "\<not> construction_fails fw" and "\<not> playing_fails fw" and "\<not> bus_missing fw"
    and "bus_wait fw = Some msg" and "msg \<noteq> nullptr"
  shows "(message_type fw msg = MessageType_Error \<and>
          fst (gst_message_parse_error fw msg) \<noteq> nullptr \<and>
          GST_MESSAGE_SRC fw msg \<noteq> nullptr \<and>
          GST_OBJECT_NAME fw (GST_MESSAGE_SRC fw msg) \<noteq> nullptr \<longrightarrow>
            prints_and_code (tutorial_main fw) =
              Some ([Print stderr (Some red)
                       (''Error received from element '' @
                        gchar_string fw (GST_OBJECT_NAME fw (GST_MESSAGE_SRC fw msg)) @ '': '' @
                        GError_message fw (fst (gst_message_parse_error fw msg)) @ newline),
                     Print stderr (Some red)
                       (''Debugging information: '' @
                        GST_STR_NULL fw (snd (gst_message_parse_error fw msg)) @ newline)] @
                    (if null_fails fw then [null_state_warning] else []),
                    if null_fails fw then EXIT_FAILURE else EXIT_SUCCESS)) \<and>
         (message_type fw msg = MessageType_EOS \<longrightarrow>
            prints_and_code (tutorial_main fw) =
              Some ([Print stdout None (''End-Of-Stream reached.'' @ newline)] @
                    (if null_fails fw then [null_state_warning] else []),
                    if null_fails fw then EXIT_FAILURE else EXIT_SUCCESS)) \<and>
         EXIT_SUCCESS = 0 \<and> EXIT_FAILURE \<noteq> 0"
proof (intro conjI impI)
  assume e: "message_type fw msg = MessageType_Error \<and>
          fst (gst_message_parse_error fw msg) \<noteq> nullptr \<and>
          GST_MESSAGE_SRC fw msg \<noteq> nullptr \<and>
          GST_OBJECT_NAME fw (GST_MESSAGE_SRC fw msg) \<noteq> nullptr"
  then have "message_dispatch fw msg =
      Inr ([GstMessageParseError msg, GErrorFree (fst (gst_message_parse_error fw msg)),
            GFree (snd (gst_message_parse_error fw msg)),
            Print stderr (Some red)
              (''Error received from element '' @
               gchar_string fw (GST_OBJECT_NAME fw (GST_MESSAGE_SRC fw msg)) @ '': '' @
               GError_message fw (fst (gst_message_parse_error fw msg)) @ newline),
            Print stderr (Some red)
              (''Debugging information: '' @
               GST_STR_NULL fw (snd (gst_message_parse_error fw msg)) @ newline)])"
    by (cases "gst_message_parse_error fw msg")
      (simp add: message_dispatch_def message_parse_error_def)
  then show "prints_and_code (tutorial_main fw) =
      Some ([Print stderr (Some red)
               (''Error received from element '' @
                gchar_string fw (GST_OBJECT_NAME fw (GST_MESSAGE_SRC fw msg)) @ '': '' @
                GError_message fw (fst (gst_message_parse_error fw msg)) @ newline),
             Print stderr (Some red)
               (''Debugging information: '' @
                GST_STR_NULL fw (snd (gst_message_parse_error fw msg)) @ newline)] @
            (if null_fails fw then [null_state_warning] else []),
            if null_fails fw then EXIT_FAILURE else EXIT_SUCCESS)"
    using assms
    by (simp add: tutorial_main_waits set_state_null_driver prints_of_Element_dtor
        is_print_null_state_warning prints_and_code_def)
next
  assume "message_type fw msg = MessageType_EOS"
  then have "message_dispatch fw msg =
      Inr [Print stdout None (''End-Of-Stream reached.'' @ newline)]"
    using tags_differ by (simp add: message_dispatch_def)
  then show "prints_and_code (tutorial_main fw) =
      Some ([Print stdout None (''End-Of-Stream reached.'' @ newline)] @
            (if null_fails fw then [null_state_warning] else []),
            if null_fails fw then EXIT_FAILURE else EXIT_SUCCESS)"
    using assms
    by (simp add: tutorial_main_waits set_state_null_driver prints_of_Element_dtor
        is_print_null_state_warning prints_and_code_def)
next
  show "EXIT_SUCCESS = 0" by (simp add: EXIT_SUCCESS_def)
next
  show "EXIT_FAILURE \<noteq> 0" by (simp add: EXIT_FAILURE_def)
qed

text \<open>
  Claim C8. When the message received carries a tag that is neither the error tag nor
  the end-of-stream tag, the dispatch does nothing (no call, nothing printed): the call
  that follows the wait on the bus is the request for the null state, and the run ends
  as any other. Whenever the dispatch does something, the tag is the error tag or the
  end-of-stream tag.
\<close>

theorem other_tags_fall_through:
  assumes "\<not> construction_fails fw" and "\<not> playing_fails fw" and "\<not> bus_missing fw"
    and "bus_wait fw = Some msg" and "msg \<noteq> nullptr"
    and "message_type fw msg \<noteq> MessageType_Error" and "message_type fw msg \<noteq> MessageType_EOS"
  shows "message_dispatch fw msg = Inr [] \<and>
         tutorial_main fw =
           Some (Inr ([GstInit, GstParseLaunch pipeline_description,
                  GstElementSetState (launched_element fw) GST_STATE_PLAYING,
                  GstElementGetBus (launched_element fw),
                  GstBusTimedPopFiltered (pipeline_bus fw) GST_CLOCK_TIME_NONE wait_mask,
                  GstElementSetState (launched_element fw) GST_STATE_NULL] @
                 (if null_fails fw then [null_state_warning] else []) @
                 [GstMessageUnref msg, GstObjectUnref (pipeline_bus fw)] @
                 Element_dtor (Element (launched_element fw)),
                 if null_fails fw then EXIT_FAILURE else EXIT_SUCCESS)) \<and>
         (message_dispatch fw m \<noteq> Inr [] \<longrightarrow>
            message_type fw m = MessageType_Error \<or> message_type fw m = MessageType_EOS)"
proof (intro conjI)
  show d: "message_dispatch fw msg = Inr []"
    using assms(6,7) by (auto simp: message_dispatch_def)
  show "tutorial_main fw =
           Some (Inr ([GstInit, GstParseLaunch pipeline_description,
                  GstElementSetState (launched_element fw) GST_STATE_PLAYING,
                  GstElementGetBus (launched_element fw),
                  GstBusTimedPopFiltered (pipeline_bus fw) GST_CLOCK_TIME_NONE wait_mask,
                  GstElementSetState (launched_element fw) GST_STATE_NULL] @
                 (if null_fails fw then [null_state_warning] else []) @
                 [GstMessageUnref msg, GstObjectUnref (pipeline_bus fw)] @
                 Element_dtor (Element (launched_element fw)),
                 if null_fails fw then EXIT_FAILURE else EXIT_SUCCESS))"
    using assms(1-5) by (simp add: tutorial_main_waits d set_state_null_driver)
  show "message_dispatch fw m \<noteq> Inr [] \<longrightarrow>
          message_type fw m = MessageType_Error \<or> message_type fw m = MessageType_EOS"
    by (auto simp: message_dispatch_def)
qed

lemmas sample_defs =
  unreachable_uri_run_def reachable_uri_run_def state_changed_run_def stuck_teardown_run_def
  sourceless_error_run_def sample_run_def construction_fails_def playing_fails_def
  bus_missing_def bus_wait_def no_message_def null_fails_def launched_element_def
  pipeline_bus_def source_unnamed_def unprintable_error_def

lemmas driver_defs =
  tutorial_main_def parse_launch_def bus_timed_pop_filtered_def message_dispatch_def
  message_parse_error_def message_type_def set_state_null_def GST_STR_NULL_def
  Element_move_ctor_def Element_get_def Element_dtor_def unique_ptr_move_def
  unique_ptr_release_def unique_ptr_dtor_def GstElementDeleter_def GstBusDeleter_def
  GstErrorDeleter_def GstMessageDeleter_def MessageType_Error_def MessageType_EOS_def
  null_state_warning_def EXIT_SUCCESS_def EXIT_FAILURE_def ends_abnormally_def
  exit_code_def prints_and_code_def


text \<open>
  Claim C2 as stated says that a run in which the wait on the bus delivers an
  error-tagged message ends with a failure exit code. On the framework
  \<open>unreachable_uri_run\<close> the driver prints the element error and the debug string,
  sets the pipeline to the null state and returns 0.
\<close>

theorem unreachable_uri_exit_code_counterexample:
  "bus_wait unreachable_uri_run = Some 3 \<and>
   message_type unreachable_uri_run 3 = MessageType_Error \<and>
   tutorial_main unreachable_uri_run =
     Some (Inr ([GstInit, GstParseLaunch pipeline_description,
            GstElementSetState 1 GST_STATE_PLAYING, GstElementGetBus 1,
            GstBusTimedPopFiltered 2 GST_CLOCK_TIME_NONE wait_mask,
            GstMessageParseError 3, GErrorFree 4, GFree 5,
            Print stderr (Some red)
              (''Error received from element souphttpsrc0: Could not resolve server name.'' @
               newline),
            Print stderr (Some red)
              (''Debugging information: gstsouphttpsrc.c(1000)'' @ newline),
            GstElementSetState 1 GST_STATE_NULL,
            GstMessageUnref 3, GstObjectUnref 2, GstObjectUnref 1],
           0))"
  by (simp add: sample_defs driver_defs)

text \<open>Claim C2, amended, on an error-tagged run and on an end-of-stream run.\<close>

theorem tutorial_main_error_and_eos_runs_witness:
  "\<not> construction_fails unreachable_uri_run \<and> \<not> playing_fails unreachable_uri_run \<and>
   \<not> bus_missing unreachable_uri_run \<and> bus_wait unreachable_uri_run = Some 3 \<and>
   message_type unreachable_uri_run 3 = MessageType_Error \<and>
   fst (gst_message_parse_error unreachable_uri_run 3) \<noteq> nullptr \<and>
   GST_MESSAGE_SRC unreachable_uri_run 3 \<noteq> nullptr \<and>
   GST_OBJECT_NAME unreachable_uri_run (GST_MESSAGE_SRC unreachable_uri_run 3) \<noteq> nullptr \<and>
   prints_and_code (tutorial_main unreachable_uri_run) =
     Some ([Print stderr (Some red)
              (''Error received from element souphttpsrc0: Could not resolve server name.'' @
               newline),
            Print stderr (Some red)
              (''Debugging information: gstsouphttpsrc.c(1000)'' @ newline)],
           0) \<and>
   \<not> construction_fails reachable_uri_run \<and> \<not> playing_fails reachable_uri_run \<and>
   \<not> bus_missing reachable_uri_run \<and> bus_wait reachable_uri_run = Some 3 \<and>
   message_type reachable_uri_run 3 = MessageType_EOS \<and>
   prints_and_code (tutorial_main reachable_uri_run) =
     Some ([Print stdout None (''End-Of-Stream reached.'' @ newline)], 0)"
  using tutorial_main_error_and_eos_runs [of unreachable_uri_run 3]
    tutorial_main_error_and_eos_runs [of reachable_uri_run 3]
  by (simp add: sample_defs driver_defs)

text \<open>Claim C8 on a run whose message carries the state-changed tag (\<open>1 << 6\<close>).\<close>

theorem other_tags_fall_through_witness:
  "\<not> construction_fails state_changed_run \<and> \<not> playing_fails state_changed_run \<and>
   \<not> bus_missing state_changed_run \<and> bus_wait state_changed_run = Some 3 \<and>
   message_type state_changed_run 3 \<noteq> MessageType_Error \<and>
   message_type state_changed_run 3 \<noteq> MessageType_EOS \<and>
   message_dispatch state_changed_run 3 = Inr [] \<and>
   tutorial_main state_changed_run =
     Some (Inr ([GstInit, GstParseLaunch pipeline_description,
            GstElementSetState 1 GST_STATE_PLAYING, GstElementGetBus 1,
            GstBusTimedPopFiltered 2 GST_CLOCK_TIME_NONE wait_mask,
            GstElementSetState 1 GST_STATE_NULL,
            GstMessageUnref 3, GstObjectUnref 2, GstObjectUnref 1],
           0))"
  using other_tags_fall_through [where fw = state_changed_run and msg = 3 and m = 3]
  by (simp add: sample_defs driver_defs)

end
